theory Spec2Isabelle
  imports Main "HOL-Library.AList" "HOL-Library.Sublist"
begin

section \<open>The aiohere client: data model\<close>

subsection \<open>enum.py: the product types\<close>

text \<open>
  \<^verbatim>\<open>class WeatherProductType(Enum)\<close> of \<^verbatim>\<open>enum.py\<close>: seven string-valued members.
  \<^verbatim>\<open>__str__\<close> returns \<^verbatim>\<open>"%s" % self._value_\<close>, the member's value.
\<close>

datatype WeatherProductType =
    observation
  | forecast_7days
  | forecast_7days_simple
  | forecast_hourly
  | forecast_astronomy
  | alerts
  | nws_alerts

fun str_product :: "WeatherProductType \<Rightarrow> string" where
  "str_product observation = ''observation''"
| "str_product forecast_7days = ''forecast_7days''"
| "str_product forecast_7days_simple = ''forecast_7days_simple''"
| "str_product forecast_hourly = ''forecast_hourly''"
| "str_product forecast_astronomy = ''forecast_astronomy''"
| "str_product alerts = ''alerts''"
| "str_product nws_alerts = ''nws_alerts''"

text \<open>
  \<^verbatim>\<open>AioHere._product_node\<close> (aiohere.py, lines 179-193): an if/elif chain on enum
  equality whose last branch is a bare \<^verbatim>\<open>else\<close>.
\<close>

definition product_node :: "WeatherProductType \<Rightarrow> string" where
  "product_node product =
     (if product = observation then ''observations''
      else if product = forecast_7days then ''forecasts''
      else if product = forecast_7days_simple then ''dailyForecasts''
      else if product = forecast_hourly then ''hourlyForecasts''
      else if product = forecast_astronomy then ''astronomy''
      else if product = alerts then ''alerts''
      else ''nwsAlerts'')"

subsection \<open>Python values and exceptions\<close>

text \<open>
  The values that \<^verbatim>\<open>response.json()\<close> can produce and that the client builds itself.
  Python's \<^verbatim>\<open>None\<close> is one value, whether it is the \<^verbatim>\<open>return None\<close> of \<^verbatim>\<open>request\<close> or a
  decoded JSON \<^verbatim>\<open>null\<close>. The carrier \<open>'f\<close> of floats is left open: the client never
  computes with one. A dict is an association list in insertion order with string keys.
\<close>

datatype 'f pyval =
    PNone
  | PBool bool
  | PInt int
  | PFloat 'f
  | PStr string
  | PList "'f pyval list"
  | PDict "(string \<times> 'f pyval) list"

text \<open>
  Modelled from the spec: the exception classes of \<^verbatim>\<open>aiohere/exceptions.py\<close>, which
  \<^verbatim>\<open>aiohere.py\<close> imports and which is not among the sources. The spec gives four error
  kinds with a common base (generic, timeout, unauthorized, invalid request), each
  carrying what it was constructed with; the names are those of the import statement, and
  the argument list is the tuple of constructor arguments.
\<close>

datatype 'f HereError =
    HereError "'f pyval list"
  | HereTimeOutError "'f pyval list"
  | HereUnauthorizedError "'f pyval list"
  | HereInvalidRequestError "'f pyval list"

text \<open>
  Everything a call can raise: one of the four kinds above, the built-in exceptions of the
  dict, list and attribute operations the client performs, and \<open>Foreign\<close> for an exception
  of a collaborator (the HTTP library, the JSON or text decoder), named by its class.
\<close>

datatype 'f exn =
    Here "'f HereError"
  | KeyError string
  | AttributeError
  | TypeError
  | Foreign string

text \<open>\<^verbatim>\<open>k in s\<close> for two strings: \<^verbatim>\<open>k\<close> occurs in \<^verbatim>\<open>s\<close> as a contiguous substring.\<close>

fun py_in_str :: "string \<Rightarrow> string \<Rightarrow> bool" where
  "py_in_str k [] = (k = [])"
| "py_in_str k (c # cs) = (prefix k (c # cs) \<or> py_in_str k cs)"

text \<open>\<^verbatim>\<open>d.get(k)\<close> on a dict: the value, or \<^verbatim>\<open>None\<close> for a missing key.\<close>

definition dict_get :: "(string \<times> 'f pyval) list \<Rightarrow> string \<Rightarrow> 'f pyval" where
  "dict_get d k = (case map_of d k of None \<Rightarrow> PNone | Some v \<Rightarrow> v)"

text \<open>\<^verbatim>\<open>x.get(k)\<close> on any value: only a dict has the method.\<close>

fun py_get :: "'f pyval \<Rightarrow> string \<Rightarrow> 'f exn + 'f pyval" where
  "py_get (PDict d) k = Inr (dict_get d k)"
| "py_get PNone k = Inl AttributeError"
| "py_get (PBool b) k = Inl AttributeError"
| "py_get (PInt i) k = Inl AttributeError"
| "py_get (PFloat x) k = Inl AttributeError"
| "py_get (PStr s) k = Inl AttributeError"
| "py_get (PList xs) k = Inl AttributeError"

text \<open>
  \<^verbatim>\<open>k in x\<close> for a string \<^verbatim>\<open>k\<close>: key membership on a dict, element membership on a list,
  substring test on a string, \<^verbatim>\<open>TypeError\<close> on a value that is not iterable.
\<close>

fun py_contains :: "string \<Rightarrow> 'f pyval \<Rightarrow> 'f exn + bool" where
  "py_contains k (PDict d) = Inr (k \<in> set (map fst d))"
| "py_contains k (PList xs) = Inr (PStr k \<in> set xs)"
| "py_contains k (PStr s) = Inr (py_in_str k s)"
| "py_contains k PNone = Inl TypeError"
| "py_contains k (PBool b) = Inl TypeError"
| "py_contains k (PInt i) = Inl TypeError"
| "py_contains k (PFloat x) = Inl TypeError"

text \<open>
  \<^verbatim>\<open>x[k]\<close> for a string \<^verbatim>\<open>k\<close>: \<^verbatim>\<open>KeyError\<close> on a dict without the key, \<^verbatim>\<open>TypeError\<close> on
  every other value (a list or string index must be an integer, the rest are not
  subscriptable).
\<close>

fun py_getitem :: "'f pyval \<Rightarrow> string \<Rightarrow> 'f exn + 'f pyval" where
  "py_getitem (PDict d) k = (case map_of d k of None \<Rightarrow> Inl (KeyError k) | Some v \<Rightarrow> Inr v)"
| "py_getitem PNone k = Inl TypeError"
| "py_getitem (PBool b) k = Inl TypeError"
| "py_getitem (PInt i) k = Inl TypeError"
| "py_getitem (PFloat x) k = Inl TypeError"
| "py_getitem (PStr s) k = Inl TypeError"
| "py_getitem (PList xs) k = Inl TypeError"

text \<open>
  \<^verbatim>\<open>d.update(e)\<close>: the keys of \<^verbatim>\<open>e\<close> in order; a key already in \<^verbatim>\<open>d\<close> keeps its place
  and takes the new value, a new key goes to the end.
\<close>

definition dict_update :: "(string \<times> 'v) list \<Rightarrow> (string \<times> 'v) list \<Rightarrow> (string \<times> 'v) list" where
  "dict_update d e = foldl (\<lambda>acc kv. AList.update (fst kv) (snd kv) acc) d e"

subsection \<open>The collaborators: HTTP response, session, network\<close>

text \<open>
  What the client reads of an \<^verbatim>\<open>aiohttp\<close> response: the status, the header lookup
  \<^verbatim>\<open>response.headers.get\<close>, and the outcome of each decoding the client may ask for:
  \<^verbatim>\<open>(await response.read()).decode("utf8")\<close>, \<^verbatim>\<open>await response.json()\<close> and
  \<^verbatim>\<open>await response.text()\<close>. A decoding that fails raises; the client catches none of
  them.
\<close>

record 'f response =
  resp_status :: int
  resp_headers :: "string \<rightharpoonup> string"
  resp_contents_utf8 :: "'f exn + string"
  resp_json :: "'f exn + 'f pyval"
  resp_text :: "'f exn + string"

text \<open>The methods of the response that \<^verbatim>\<open>request\<close> calls, in the order it calls them.\<close>

datatype resp_call = Read | Close_response | Json | Text

text \<open>One call of \<^verbatim>\<open>session.request(method, API_URL, data=, json=, params=, headers=)\<close>.\<close>

record 'f http_call =
  call_method :: string
  call_url :: string
  call_data :: "'f pyval"
  call_json :: "'f pyval"
  call_params :: "(string \<times> string) list option"
  call_headers :: "(string \<times> string) list"

text \<open>
  An \<^verbatim>\<open>aiohttp.ClientSession\<close> as the client can affect it: whether it is closed, how often
  its \<^verbatim>\<open>close()\<close> was awaited, and the calls sent through it. Sessions live in a store, a
  list indexed by handle, since a session given to the constructor is shared with the
  caller; \<^verbatim>\<open>aiohttp.ClientSession()\<close> appends a new one.
\<close>

record 'f ClientSession =
  closed :: bool
  close_calls :: nat
  requests :: "'f http_call list"

type_synonym 'f store = "'f ClientSession list"

definition new_ClientSession :: "'f ClientSession" where
  "new_ClientSession = \<lparr>closed = False, close_calls = 0, requests = []\<rparr>"

definition session_request :: "'f store \<Rightarrow> nat \<Rightarrow> 'f http_call \<Rightarrow> 'f store" where
  "session_request w s c = w[s := (w ! s)\<lparr>requests := requests (w ! s) @ [c]\<rparr>]"

definition session_close :: "'f store \<Rightarrow> nat \<Rightarrow> 'f store" where
  "session_close w s = w[s := (w ! s)\<lparr>closed := True, close_calls := Suc (close_calls (w ! s))\<rparr>]"

text \<open>
  An exception raised inside the \<^verbatim>\<open>try\<close> of \<^verbatim>\<open>request\<close> (lines 88-97), by the expiry of
  the timeout context or by the HTTP library: the exception itself and, for each class
  the \<^verbatim>\<open>except\<close> clauses name, whether it is an instance. The classes are not disjoint:
  \<^verbatim>\<open>aiohttp.ServerTimeoutError\<close> is both an \<^verbatim>\<open>asyncio.TimeoutError\<close> and an
  \<^verbatim>\<open>aiohttp.ClientError\<close>.
\<close>

record 'f raised =
  raised_exn :: "'f exn"
  is_TimeoutError :: bool
  is_ClientError :: bool
  is_gaierror :: bool

text \<open>What the network does with one call: an exception is raised, or a response arrives.\<close>

datatype 'f outcome =
    Raised "'f raised"
  | Response "'f response"

subsection \<open>aiohere.py: the client\<close>

definition API_URL :: string where
  "API_URL = ''https://weather.cc.api.here.com/weather/1.0/report.json''"

text \<open>
  The attributes \<^verbatim>\<open>_session\<close> (a handle into the store, or \<^verbatim>\<open>None\<close>), \<^verbatim>\<open>_close_session\<close>,
  \<^verbatim>\<open>api_key\<close> and \<^verbatim>\<open>request_timeout\<close>.
\<close>

record AioHere =
  session :: "nat option"
  close_session :: bool
  api_key :: string
  request_timeout :: int

text \<open>\<^verbatim>\<open>AioHere.__init__\<close> (lines 29-47).\<close>

definition init :: "string \<Rightarrow> int \<Rightarrow> nat option \<Rightarrow> AioHere" where
  "init key timeout s =
     \<lparr>session = s, close_session = False, api_key = key, request_timeout = timeout\<rparr>"

text \<open>
  Lines 172-177 of \<^verbatim>\<open>_get_error_from_response\<close>: the \<^verbatim>\<open>Type\<close>/\<^verbatim>\<open>Message\<close> shape, read
  with \<^verbatim>\<open>.get\<close>.
\<close>

definition type_message_error :: "'f pyval \<Rightarrow> 'f exn + 'f HereError" where
  "type_message_error json_data =
     (case py_get json_data ''Type'' of
        Inl e \<Rightarrow> Inl e
      | Inr error_type \<Rightarrow>
          (case py_get json_data ''Message'' of
             Inl e \<Rightarrow> Inl e
           | Inr error_message \<Rightarrow>
               if error_type = PStr ''Invalid Request''
               then Inr (HereInvalidRequestError [error_message])
               else Inr (HereError [error_message])))"

text \<open>
  \<^verbatim>\<open>AioHere._get_error_from_response\<close> (lines 168-177). \<open>Inr\<close> is the exception object it
  returns, \<open>Inl\<close> an exception it raises itself. The \<^verbatim>\<open>error\<close> and \<^verbatim>\<open>error_description\<close>
  fields are read by subscript.
\<close>

definition get_error_from_response :: "'f pyval \<Rightarrow> 'f exn + 'f HereError" where
  "get_error_from_response json_data =
     (case py_contains ''error'' json_data of
        Inl e \<Rightarrow> Inl e
      | Inr has_error \<Rightarrow>
          if has_error then
            (case py_getitem json_data ''error'' of
               Inl e \<Rightarrow> Inl e
             | Inr v \<Rightarrow>
                 if v = PStr ''Unauthorized'' then
                   (case py_getitem json_data ''error_description'' of
                      Inl e \<Rightarrow> Inl e
                    | Inr d \<Rightarrow> Inr (HereUnauthorizedError [d]))
                 else type_message_error json_data)
          else type_message_error json_data)"

text \<open>
  Lines 107-124 of \<^verbatim>\<open>request\<close>: what becomes of a response that arrived. The result is
  \<open>Inl\<close> for an exception raised and \<open>Inr\<close> for the value returned, together with the
  methods called on the response, in order.
\<close>

definition handle_response :: "'f response \<Rightarrow> ('f exn + 'f pyval) \<times> resp_call list" where
  "handle_response r =
     (let content_type = (case resp_headers r ''Content-Type'' of None \<Rightarrow> [] | Some v \<Rightarrow> v) in
      if resp_status r div 100 \<in> set [4, 5] then
        (if content_type = ''application/json'' then
           ((case resp_json r of
               Inl e \<Rightarrow> Inl e
             | Inr j \<Rightarrow>
                 (case get_error_from_response j of
                    Inl e \<Rightarrow> Inl e
                  | Inr err \<Rightarrow> Inl (Here err))),
            [Read, Close_response, Json])
         else
           ((case resp_contents_utf8 r of
               Inl e \<Rightarrow> Inl e
             | Inr t \<Rightarrow>
                 Inl (Here (HereError [PInt (resp_status r), PDict [(''message'', PStr t)]]))),
            [Read, Close_response]))
      else if resp_status r = 204 then (Inr PNone, [Close_response])
      else if py_in_str ''application/json'' content_type then (resp_json r, [Json])
      else
        ((case resp_text r of
            Inl e \<Rightarrow> Inl e
          | Inr t \<Rightarrow> Inr (PDict [(''message'', PStr t)])),
         [Text]))"

text \<open>
  What a method of the client leaves behind: the value returned or the exception raised,
  the client object, the session store, and the methods called on the response (none if
  no response arrived).
\<close>

record 'f step =
  returned :: "'f exn + 'f pyval"
  self :: AioHere
  sessions :: "'f store"
  response_calls :: "resp_call list"

text \<open>Lines 84-86 of \<^verbatim>\<open>request\<close>: the session is created on first use and marked as owned.\<close>

definition ensure_session :: "AioHere \<Rightarrow> 'f store \<Rightarrow> nat \<times> AioHere \<times> 'f store" where
  "ensure_session c w =
     (case session c of
        None \<Rightarrow> (length w, c\<lparr>session := Some (length w), close_session := True\<rparr>,
                 w @ [new_ClientSession])
      | Some s \<Rightarrow> (s, c, w))"

text \<open>
  \<^verbatim>\<open>AioHere.request\<close> (lines 49-124). \<open>net\<close> is what the network does with the one call
  the method sends. The call is recorded in the session it goes through. The \<^verbatim>\<open>except\<close>
  clauses are tried in the order of the source: \<^verbatim>\<open>asyncio.TimeoutError\<close> first, then
  \<^verbatim>\<open>aiohttp.ClientError\<close> and \<^verbatim>\<open>socket.gaierror\<close>; any other exception propagates.
\<close>

definition request ::
  "AioHere \<Rightarrow> 'f store \<Rightarrow> 'f outcome \<Rightarrow> string \<Rightarrow> (string \<times> string) list option \<Rightarrow>
   'f pyval \<Rightarrow> 'f pyval \<Rightarrow> (string \<times> string) list option \<Rightarrow> 'f step" where
  "request c w net method additional_headers data json_data params =
     (let headers0 = [(''Accept'', ''application/json''), (''DNT'', ''1'')];
          headers = (case additional_headers of None \<Rightarrow> headers0
                     | Some h \<Rightarrow> dict_update headers0 h);
          s = fst (ensure_session c w);
          c1 = fst (snd (ensure_session c w));
          w1 = snd (snd (ensure_session c w));
          w2 = session_request w1 s
                 \<lparr>call_method = method, call_url = API_URL, call_data = data,
                  call_json = json_data, call_params = params, call_headers = headers\<rparr>
      in case net of
           Raised x \<Rightarrow>
             if is_TimeoutError x then
               \<lparr>returned = Inl (Here (HereTimeOutError
                    [PStr ''Timeout occurred while connecting to the here API.''])),
                self = c1, sessions = w2, response_calls = []\<rparr>
             else if is_ClientError x \<or> is_gaierror x then
               \<lparr>returned = Inl (Here (HereError
                    [PStr ''Error occurred while communicating with the here API.''])),
                self = c1, sessions = w2, response_calls = []\<rparr>
             else
               \<lparr>returned = Inl (raised_exn x), self = c1, sessions = w2, response_calls = []\<rparr>
         | Response r \<Rightarrow>
             \<lparr>returned = fst (handle_response r), self = c1, sessions = w2,
              response_calls = snd (handle_response r)\<rparr>)"

text \<open>Lines 152-159 of \<^verbatim>\<open>weather_for_coordinates\<close>; \<open>str\<close> is Python's \<^verbatim>\<open>str\<close> on a number.\<close>

definition weather_params ::
  "('f \<Rightarrow> string) \<Rightarrow> AioHere \<Rightarrow> 'f \<Rightarrow> 'f \<Rightarrow> WeatherProductType \<Rightarrow> bool \<Rightarrow> bool \<Rightarrow>
   (string \<times> string) list" where
  "weather_params str c latitude longitude product one_observation metric =
     [(''apiKey'', api_key c),
      (''product'', str_product product),
      (''oneobservation'', if one_observation = True then ''true'' else ''false''),
      (''metric'', if metric = True then ''true'' else ''false''),
      (''latitude'', str latitude),
      (''longitude'', str longitude)]"

text \<open>\<^verbatim>\<open>AioHere.weather_for_coordinates\<close> (lines 126-166).\<close>

definition weather_for_coordinates ::
  "('f \<Rightarrow> string) \<Rightarrow> AioHere \<Rightarrow> 'f store \<Rightarrow> 'f outcome \<Rightarrow> 'f \<Rightarrow> 'f \<Rightarrow> WeatherProductType \<Rightarrow>
   bool \<Rightarrow> bool \<Rightarrow> 'f step" where
  "weather_for_coordinates str c w net latitude longitude product one_observation metric =
     (let params = weather_params str c latitude longitude product one_observation metric;
          st = request c w net ''GET'' None PNone PNone (Some params)
      in case returned st of
           Inl e \<Rightarrow> st
         | Inr json_data \<Rightarrow>
             (case py_get json_data (product_node product) of
                Inl e \<Rightarrow> st\<lparr>returned := Inl e\<rparr>
              | Inr v \<Rightarrow>
                  if v \<noteq> PNone then st\<lparr>returned := Inr json_data\<rparr>
                  else
                    (case get_error_from_response json_data of
                       Inl e \<Rightarrow> st\<lparr>returned := Inl e\<rparr>
                     | Inr error \<Rightarrow> st\<lparr>returned := Inl (Here error)\<rparr>)))"

text \<open>
  \<^verbatim>\<open>AioHere.close\<close> (lines 195-198). A session object is always true in a condition, so
  \<^verbatim>\<open>self._session and self._close_session\<close> asks for a session and the flag. The client
  object is left as it is.
\<close>

definition close :: "AioHere \<Rightarrow> 'f store \<Rightarrow> 'f store" where
  "close c w =
     (case session c of
        None \<Rightarrow> w
      | Some s \<Rightarrow> if close_session c then session_close w s else w)"

subsection \<open>Sequences of calls on one client\<close>

text \<open>
  The calls a caller can make on a client after constructing it, each with what the
  network does during it. An exception raised by a call is the caller's to handle; the
  client object and the sessions stay as the call left them.
\<close>

datatype 'f client_call =
    Call_request "'f outcome" string "(string \<times> string) list option" "'f pyval" "'f pyval"
      "(string \<times> string) list option"
  | Call_weather "'f outcome" 'f 'f WeatherProductType bool bool
  | Call_close

fun run_call :: "('f \<Rightarrow> string) \<Rightarrow> AioHere \<times> 'f store \<Rightarrow> 'f client_call \<Rightarrow> AioHere \<times> 'f store" where
  "run_call str (c, w) (Call_request net method hs data json_data params) =
     (self (request c w net method hs data json_data params),
      sessions (request c w net method hs data json_data params))"
| "run_call str (c, w) (Call_weather net latitude longitude product one_observation metric) =
     (self (weather_for_coordinates str c w net latitude longitude product one_observation metric),
      sessions (weather_for_coordinates str c w net latitude longitude product one_observation metric))"
| "run_call str (c, w) Call_close = (c, close c w)"

definition run_calls ::
  "('f \<Rightarrow> string) \<Rightarrow> AioHere \<times> 'f store \<Rightarrow> 'f client_call list \<Rightarrow> AioHere \<times> 'f store" where
  "run_calls str cw calls = foldl (run_call str) cw calls"

text \<open>A session handle of the client, if it has one, points into the store.\<close>

definition valid_session :: "AioHere \<Rightarrow> 'f store \<Rightarrow> bool" where
  "valid_session c w = (case session c of None \<Rightarrow> True | Some s \<Rightarrow> s < length w)"

text \<open>
  The client holds a session it was given: \<^verbatim>\<open>_session\<close> is set and \<^verbatim>\<open>_close_session\<close> is
  still \<^verbatim>\<open>False\<close>.
\<close>

definition borrowed :: "AioHere \<Rightarrow> nat \<Rightarrow> bool" where
  "borrowed c s \<longleftrightarrow> session c = Some s \<and> \<not> close_session c"

subsection \<open>Concrete responses used in the examples\<close>

text \<open>
  In the examples a float is written as the string Python prints for it, so \<^verbatim>\<open>str\<close> is the
  identity. \<open>json_response\<close> is a response with the given status and content type whose
  body decodes to \<open>v\<close>; \<open>text_response\<close> is one whose body is the text \<open>t\<close> and not
  JSON. \<open>timeout_expired\<close> is the \<^verbatim>\<open>asyncio.TimeoutError\<close> of the expired timeout context,
  \<open>server_timeout\<close> an \<^verbatim>\<open>aiohttp.ServerTimeoutError\<close>, \<open>connection_refused\<close> an
  \<^verbatim>\<open>aiohttp.ClientConnectorError\<close> and \<open>dns_failure\<close> a \<^verbatim>\<open>socket.gaierror\<close>.
  \<open>lazy_client_step\<close> is a first \<^verbatim>\<open>request\<close> on a client constructed without a session,
  with an empty store, during which the connection is refused.
\<close>

definition timeout_expired :: "string raised" where
  "timeout_expired =
     \<lparr>raised_exn = Foreign ''TimeoutError'', is_TimeoutError = True, is_ClientError = False,
      is_gaierror = False\<rparr>"

definition server_timeout :: "string raised" where
  "server_timeout =
     \<lparr>raised_exn = Foreign ''ServerTimeoutError'', is_TimeoutError = True, is_ClientError = True,
      is_gaierror = False\<rparr>"

definition connection_refused :: "string raised" where
  "connection_refused =
     \<lparr>raised_exn = Foreign ''ClientConnectorError'', is_TimeoutError = False,
      is_ClientError = True, is_gaierror = False\<rparr>"

definition dns_failure :: "string raised" where
  "dns_failure =
     \<lparr>raised_exn = Foreign ''gaierror'', is_TimeoutError = False, is_ClientError = False,
      is_gaierror = True\<rparr>"

definition json_response :: "int \<Rightarrow> string \<Rightarrow> string pyval \<Rightarrow> string response" where
  "json_response code ctype v =
     \<lparr>resp_status = code,
      resp_headers = [''Content-Type'' \<mapsto> ctype],
      resp_contents_utf8 = Inr ''(json text)'',
      resp_json = Inr v,
      resp_text = Inr ''(json text)''\<rparr>"

definition text_response :: "int \<Rightarrow> string \<Rightarrow> string \<Rightarrow> string response" where
  "text_response code ctype t =
     \<lparr>resp_status = code,
      resp_headers = [''Content-Type'' \<mapsto> ctype],
      resp_contents_utf8 = Inr t,
      resp_json = Inl (Foreign ''JSONDecodeError''),
      resp_text = Inr t\<rparr>"

definition lazy_client_step :: "string step" where
  "lazy_client_step =
     request (init ''key'' 10 None) [] (Raised connection_refused) ''GET'' None PNone PNone None"

section \<open>Auxiliary facts\<close>

subsection \<open>Python operations\<close>

lemma py_in_str_sublist: "py_in_str k s = sublist k s"
  by (induction s) (auto simp: sublist_Cons_right)

lemma error_status_iff:
  fixes n :: int
  shows "n div 100 \<in> set [4, 5] \<longleftrightarrow> 400 \<le> n \<and> n < 600"
  by simp presburger

lemma map_update_same:
  assumes "f x = f (xs ! i)"
  shows "map f (xs[i := x]) = map f xs"
proof (cases "i < length xs")
  case True
  have "map f (xs[i := x]) = (map f xs)[i := f x]"
    by (rule map_update)
  also have "\<dots> = (map f xs)[i := map f xs ! i]"
    using True assms by simp
  also have "\<dots> = map f xs"
    by (rule list_update_id)
  finally show ?thesis .
next
  case False
  then have "xs[i := x] = xs"
    by (simp add: list_update_beyond)
  then show ?thesis
    by simp
qed

subsection \<open>The error mapper on a dict\<close>

lemma type_message_error_dict:
  "type_message_error (PDict d) =
     Inr (if dict_get d ''Type'' = PStr ''Invalid Request''
          then HereInvalidRequestError [dict_get d ''Message'']
          else HereError [dict_get d ''Message''])"
  by (simp add: type_message_error_def)

lemma py_contains_dict: "py_contains k (PDict d) = Inr (map_of d k \<noteq> None)"
  by (simp add: map_of_eq_None_iff)

lemma get_error_from_response_dict:
  "get_error_from_response (PDict d) =
     (if map_of d ''error'' = Some (PStr ''Unauthorized'')
      then (case map_of d ''error_description'' of
              None \<Rightarrow> Inl (KeyError ''error_description'')
            | Some v \<Rightarrow> Inr (HereUnauthorizedError [v]))
      else type_message_error (PDict d))"
proof (cases "map_of d ''error''")
  case None
  then show ?thesis
    unfolding get_error_from_response_def py_contains_dict
    by (simp only: not_False_eq_True not_True_eq_False sum.case if_False option.distinct simp_thms)
next
  case (Some v)
  show ?thesis
  proof (cases "v = PStr ''Unauthorized''")
    case True
    with Some show ?thesis
      unfolding get_error_from_response_def py_contains_dict py_getitem.simps
      by (cases "map_of d ''error_description''")
         (simp_all only: option.case sum.case if_True option.distinct not_False_eq_True
            option.inject simp_thms)
  next
    case False
    with Some show ?thesis
      unfolding get_error_from_response_def py_contains_dict py_getitem.simps
      by (simp only: option.case sum.case if_True if_False option.distinct not_False_eq_True
            option.inject simp_thms)
  qed
qed

subsection \<open>The three branches of the response handling\<close>

lemma returned_request_Response:
  "returned (request c w (Response r) method hs data json_data params) = fst (handle_response r)"
  by (simp add: request_def Let_def)

lemma response_calls_request_Response:
  "response_calls (request c w (Response r) method hs data json_data params) = snd (handle_response r)"
  by (simp add: request_def Let_def)

lemma handle_response_error:
  assumes "400 \<le> resp_status r" "resp_status r < 600"
  shows "handle_response r =
     (if (case resp_headers r ''Content-Type'' of None \<Rightarrow> [] | Some v \<Rightarrow> v) = ''application/json''
      then ((case resp_json r of Inl e \<Rightarrow> Inl e
             | Inr j \<Rightarrow> (case get_error_from_response j of Inl e \<Rightarrow> Inl e | Inr err \<Rightarrow> Inl (Here err))),
            [Read, Close_response, Json])
      else ((case resp_contents_utf8 r of Inl e \<Rightarrow> Inl e
             | Inr t \<Rightarrow> Inl (Here (HereError [PInt (resp_status r), PDict [(''message'', PStr t)]]))),
            [Read, Close_response]))"
proof -
  from assms have "resp_status r div 100 \<in> set [4, 5]"
    by (simp only: error_status_iff)
  then show ?thesis
    unfolding handle_response_def Let_def by (simp only: if_True)
qed

lemma handle_response_204:
  assumes "resp_status r = 204"
  shows "handle_response r = (Inr PNone, [Close_response])"
  using assms by (simp add: handle_response_def Let_def)

lemma handle_response_success:
  assumes "\<not> (400 \<le> resp_status r \<and> resp_status r < 600)" "resp_status r \<noteq> 204"
  shows "handle_response r =
     (if sublist ''application/json'' (case resp_headers r ''Content-Type'' of None \<Rightarrow> [] | Some v \<Rightarrow> v)
      then (resp_json r, [Json])
      else (map_sum id (\<lambda>t. PDict [(''message'', PStr t)]) (resp_text r), [Text]))"
proof -
  from assms(1) have "\<not> resp_status r div 100 \<in> set [4, 5]"
    by (simp only: error_status_iff not_False_eq_True)
  with assms(2) show ?thesis
    unfolding handle_response_def Let_def py_in_str_sublist
    by (cases "resp_text r") simp_all
qed

subsection \<open>What a call does to the client and the sessions\<close>

lemma request_state:
  "self (request c w net method hs data json_data params) = fst (snd (ensure_session c w)) \<and>
   sessions (request c w net method hs data json_data params) =
     session_request (snd (snd (ensure_session c w))) (fst (ensure_session c w))
       \<lparr>call_method = method, call_url = API_URL, call_data = data, call_json = json_data,
        call_params = params,
        call_headers = (case hs of None \<Rightarrow> [(''Accept'', ''application/json''), (''DNT'', ''1'')]
                        | Some h \<Rightarrow> dict_update [(''Accept'', ''application/json''), (''DNT'', ''1'')] h)\<rparr>"
  by (cases net) (simp_all add: request_def Let_def)

lemma weather_state:
  "self (weather_for_coordinates str c w net latitude longitude product one_observation metric) =
     self (request c w net ''GET'' None PNone PNone
            (Some (weather_params str c latitude longitude product one_observation metric))) \<and>
   sessions (weather_for_coordinates str c w net latitude longitude product one_observation metric) =
     sessions (request c w net ''GET'' None PNone PNone
            (Some (weather_params str c latitude longitude product one_observation metric)))"
  by (simp add: weather_for_coordinates_def Let_def split: sum.splits)

lemma session_request_nth:
  "s < length w \<Longrightarrow> requests (session_request w s call ! s) = requests (w ! s) @ [call]"
  by (simp add: session_request_def)

lemma weather_returned_dict:
  assumes "returned (request c w net ''GET'' None PNone PNone
             (Some (weather_params str c latitude longitude product one_observation metric))) = Inr (PDict d)"
  shows "returned (weather_for_coordinates str c w net latitude longitude product one_observation metric) =
     (if dict_get d (product_node product) \<noteq> PNone then Inr (PDict d)
      else (case get_error_from_response (PDict d) of Inl e \<Rightarrow> Inl e | Inr err \<Rightarrow> Inl (Here err)))"
  using assms by (simp add: weather_for_coordinates_def Let_def split: sum.splits)

lemma session_request_closed:
  "map closed (session_request w s call) = map closed w \<and>
   map close_calls (session_request w s call) = map close_calls w"
  by (simp add: session_request_def map_update_same)

lemma run_call_borrowed:
  assumes "borrowed c s"
  shows "borrowed (fst (run_call str (c, w) x)) s \<and>
         map closed (snd (run_call str (c, w) x)) = map closed w \<and>
         map close_calls (snd (run_call str (c, w) x)) = map close_calls w"
proof -
  from assms have e: "ensure_session c w' = (s, c, w')" for w' :: "'a store"
    by (simp add: ensure_session_def borrowed_def)
  show ?thesis
  proof (cases x)
    case (Call_request net meth hs data json_data params)
    with assms show ?thesis
      by (simp add: request_state e session_request_closed)
  next
    case (Call_weather net latitude longitude product one_observation metric)
    with assms show ?thesis
      by (simp add: weather_state request_state e session_request_closed)
  next
    case Call_close
    with assms show ?thesis
      by (simp add: close_def borrowed_def)
  qed
qed

lemma run_calls_borrowed:
  assumes "borrowed c s"
  shows "borrowed (fst (run_calls str (c, w) calls)) s \<and>
         map closed (snd (run_calls str (c, w) calls)) = map closed w \<and>
         map close_calls (snd (run_calls str (c, w) calls)) = map close_calls w"
  using assms
proof (induction calls arbitrary: c w)
  case Nil
  then show ?case
    by (simp add: run_calls_def)
next
  case (Cons x calls)
  obtain c' w' where step: "run_call str (c, w) x = (c', w')"
    by (cases "run_call str (c, w) x")
  from run_call_borrowed [OF Cons.prems, of str w x] step
  have b: "borrowed c' s" and v: "map closed w' = map closed w"
    "map close_calls w' = map close_calls w"
    by simp_all
  have "run_calls str (c, w) (x # calls) = run_calls str (c', w') calls"
    by (simp add: run_calls_def step)
  with Cons.IH [OF b, of w'] v show ?case
    by simp
qed

lemma close_owned:
  assumes "session c = Some s" and "close_session c" and "s < length w"
  shows "length (close c w) = length w \<and>
         closed (close c w ! s) \<and>
         close_calls (close c w ! s) = Suc (close_calls (w ! s))"
  using assms by (simp add: close_def session_close_def)

lemma close_repeated:
  assumes "session c = Some s" and "close_session c" and "s < length w"
  shows "length ((close c ^^ n) w) = length w \<and>
         close_calls ((close c ^^ n) w ! s) = close_calls (w ! s) + n \<and>
         closed ((close c ^^ Suc n) w ! s)"
proof (induction n)
  case 0
  with close_owned [OF assms] show ?case
    by simp
next
  case (Suc n)
  then have l: "s < length ((close c ^^ n) w)" and l': "s < length ((close c ^^ Suc n) w)"
    using assms(3) close_owned [OF assms(1,2), of "(close c ^^ n) w"] by simp_all
  from close_owned [OF assms(1,2) l] close_owned [OF assms(1,2) l'] Suc show ?case
    by simp
qed

lemma lazy_request:
  "session (self (request (init key timeout None) w net method hs data json_data params)) = Some (length w) \<and>
   close_session (self (request (init key timeout None) w net method hs data json_data params)) \<and>
   length w < length (sessions (request (init key timeout None) w net method hs data json_data params)) \<and>
   close_calls (sessions (request (init key timeout None) w net method hs data json_data params) ! length w) = 0 \<and>
   \<not> closed (sessions (request (init key timeout None) w net method hs data json_data params) ! length w)"
  by (simp add: request_state ensure_session_def init_def session_request_def new_ClientSession_def)

section \<open>Verified properties\<close>

subsection \<open>The error mapper\<close>

text \<open>
  C1. The claim is that the error mapper is total on decoded JSON mappings and that a
  missing field, \<^verbatim>\<open>error_description\<close> included, degrades to an error with a null message.
  The mapper reads \<^verbatim>\<open>Type\<close> and \<^verbatim>\<open>Message\<close> with \<^verbatim>\<open>.get\<close>, but \<^verbatim>\<open>error_description\<close> by
  subscript: on the mapping \<^verbatim>\<open>{"error": "Unauthorized"}\<close> it raises \<^verbatim>\<open>KeyError\<close> and returns
  no error object. The theorem evaluates the mapper on that mapping, and \<^verbatim>\<open>request\<close> on a 401
  response with that JSON body.
\<close>

theorem get_error_from_response_missing_description:
  "get_error_from_response (PDict [(''error'', PStr ''Unauthorized'')] :: string pyval) =
     Inl (KeyError ''error_description'') \<and>
   returned (request (init ''key'' 10 None) []
      (Response (json_response 401 ''application/json'' (PDict [(''error'', PStr ''Unauthorized'')])))
      ''GET'' None PNone PNone None)
     = Inl (KeyError ''error_description'')"
  by (simp add: get_error_from_response_dict returned_request_Response handle_response_def
        json_response_def)

text \<open>
  On every other mapping the mapper does return one of the four kinds: with
  \<^verbatim>\<open>error_description\<close> present, or with \<^verbatim>\<open>error\<close> absent or different from
  \<^verbatim>\<open>"Unauthorized"\<close>, no exception is raised.
\<close>

lemma get_error_from_response_returns:
  assumes "map_of d ''error'' \<noteq> Some (PStr ''Unauthorized'') \<or> map_of d ''error_description'' \<noteq> None"
  shows "\<exists>err. get_error_from_response (PDict d) = Inr err"
  using assms
  by (cases "map_of d ''error_description''")
     (auto simp add: get_error_from_response_dict type_message_error_dict)

subsection \<open>Responses with an error status\<close>

text \<open>
  C2. For every response whose status lies in [400, 600), \<^verbatim>\<open>request\<close> does not return
  normally, and the first two methods it calls on the response are \<^verbatim>\<open>read\<close> and \<^verbatim>\<open>close\<close>.
  If the \<^verbatim>\<open>Content-Type\<close> header is exactly \<^verbatim>\<open>application/json\<close>, the body decoded as JSON
  goes to the error mapper and the error the mapper returns is raised. Otherwise a
  \<^verbatim>\<open>HereError\<close> is raised that carries the status and \<^verbatim>\<open>{"message": <body text>}\<close>.
  (\<open>handle_response_error\<close> gives the outcome also where a decoder or the mapper raises:
  that exception propagates.)
\<close>

theorem request_error_status:
  assumes "400 \<le> resp_status r" and "resp_status r < 600"
  shows
   "(\<forall>v. returned (request c w (Response r) method hs data json_data params) \<noteq> Inr v) \<and>
    take 2 (response_calls (request c w (Response r) method hs data json_data params))
      = [Read, Close_response] \<and>
    (resp_headers r ''Content-Type'' = Some ''application/json'' \<longrightarrow>
       (\<forall>j err. resp_json r = Inr j \<longrightarrow> get_error_from_response j = Inr err \<longrightarrow>
          returned (request c w (Response r) method hs data json_data params) = Inl (Here err))) \<and>
    (resp_headers r ''Content-Type'' \<noteq> Some ''application/json'' \<longrightarrow>
       (\<forall>t. resp_contents_utf8 r = Inr t \<longrightarrow>
          returned (request c w (Response r) method hs data json_data params) =
            Inl (Here (HereError [PInt (resp_status r), PDict [(''message'', PStr t)]]))))"
proof -
  let ?ct = "case resp_headers r ''Content-Type'' of None \<Rightarrow> [] | Some v \<Rightarrow> v"
  have ct: "?ct = ''application/json'' \<longleftrightarrow> resp_headers r ''Content-Type'' = Some ''application/json''"
    by (cases "resp_headers r ''Content-Type''") simp_all
  note h = handle_response_error [OF assms]
  show ?thesis
  proof (cases "resp_headers r ''Content-Type'' = Some ''application/json''")
    case True
    then have "handle_response r = ((case resp_json r of Inl e \<Rightarrow> Inl e
             | Inr j \<Rightarrow> (case get_error_from_response j of Inl e \<Rightarrow> Inl e | Inr err \<Rightarrow> Inl (Here err))),
            [Read, Close_response, Json])"
      using h ct by simp
    with True show ?thesis
      by (auto simp: returned_request_Response response_calls_request_Response split: sum.splits)
  next
    case False
    then have "handle_response r = ((case resp_contents_utf8 r of Inl e \<Rightarrow> Inl e
             | Inr t \<Rightarrow> Inl (Here (HereError [PInt (resp_status r), PDict [(''message'', PStr t)]]))),
            [Read, Close_response])"
      using h ct by simp
    with False show ?thesis
      by (auto simp: returned_request_Response response_calls_request_Response split: sum.splits)
  qed
qed

text \<open>
  The theorem at the examples of the spec: status 401 with the JSON body
  \<^verbatim>\<open>{"error": "Unauthorized", "error_description": "bad key"}\<close>, and status 500 with the
  plain text \<^verbatim>\<open>internal error\<close>.
\<close>

theorem request_error_status_witness:
  "returned (request (init ''key'' 10 None) []
      (Response (json_response 401 ''application/json''
         (PDict [(''error'', PStr ''Unauthorized''), (''error_description'', PStr ''bad key'')])))
      ''GET'' None PNone PNone None)
     = Inl (Here (HereUnauthorizedError [PStr ''bad key''])) \<and>
   returned (request (init ''key'' 10 None) []
      (Response (text_response 500 ''text/plain'' ''internal error''))
      ''GET'' None PNone PNone None)
     = Inl (Here (HereError [PInt 500, PDict [(''message'', PStr ''internal error'')]]))"
proof -
  let ?d = "[(''error'', PStr ''Unauthorized''), (''error_description'', PStr ''bad key'')]
              :: (string \<times> string pyval) list"
  let ?r1 = "json_response 401 ''application/json'' (PDict ?d)"
  let ?r2 = "text_response 500 ''text/plain'' ''internal error''"
  have s1: "400 \<le> resp_status ?r1" "resp_status ?r1 < 600"
    and s2: "400 \<le> resp_status ?r2" "resp_status ?r2 < 600"
    by (simp_all add: json_response_def text_response_def)
  have c1: "resp_headers ?r1 ''Content-Type'' = Some ''application/json''"
    and j1: "resp_json ?r1 = Inr (PDict ?d)"
    by (simp_all add: json_response_def)
  have m1: "get_error_from_response (PDict ?d) = Inr (HereUnauthorizedError [PStr ''bad key''])"
    by (simp add: get_error_from_response_dict)
  have c2: "resp_headers ?r2 ''Content-Type'' \<noteq> Some ''application/json''"
    and t2: "resp_contents_utf8 ?r2 = Inr ''internal error''" "resp_status ?r2 = 500"
    by (simp_all add: text_response_def)
  from request_error_status [OF s1, of "init ''key'' 10 None" "[]" "''GET''" None PNone PNone None]
    c1 j1 m1
  have a: "returned (request (init ''key'' 10 None) [] (Response ?r1) ''GET'' None PNone PNone None)
     = Inl (Here (HereUnauthorizedError [PStr ''bad key'']))"
    by blast
  from request_error_status [OF s2, of "init ''key'' 10 None" "[]" "''GET''" None PNone PNone None]
    c2 t2(1)
  have "returned (request (init ''key'' 10 None) [] (Response ?r2) ''GET'' None PNone PNone None)
     = Inl (Here (HereError [PInt (resp_status ?r2), PDict [(''message'', PStr ''internal error'')]]))"
    by blast
  with a t2(2) show ?thesis
    by (simp only: simp_thms)
qed

subsection \<open>The payload check of the weather lookup\<close>

text \<open>
  The claim C3 says that a payload which contains the product's key is returned
  unchanged. The test is \<^verbatim>\<open>json_data.get(key) is not None\<close>: a payload that contains the key
  with the value \<^verbatim>\<open>null\<close> is treated as if the key were missing. With status 200 and the body
  \<^verbatim>\<open>{"observations": null}\<close> the lookup for \<^verbatim>\<open>observation\<close> raises \<^verbatim>\<open>HereError(None)\<close>.
\<close>

theorem weather_null_root_key_counterexample:
  "product_node observation \<in> set (map fst [(''observations'', PNone :: string pyval)]) \<and>
   returned (weather_for_coordinates (\<lambda>x. x) (init ''key'' 10 None) []
      (Response (json_response 200 ''application/json'' (PDict [(''observations'', PNone)])))
      ''52.5'' ''13.4'' observation True True)
     \<noteq> Inr (PDict [(''observations'', PNone)]) \<and>
   returned (weather_for_coordinates (\<lambda>x. x) (init ''key'' 10 None) []
      (Response (json_response 200 ''application/json'' (PDict [(''observations'', PNone)])))
      ''52.5'' ''13.4'' observation True True)
     = Inl (Here (HereError [PNone]))"
  by (simp add: weather_for_coordinates_def Let_def returned_request_Response handle_response_def
        json_response_def product_node_def dict_get_def get_error_from_response_dict
        type_message_error_dict)

text \<open>
  C3, amended. Whenever \<^verbatim>\<open>request\<close> returns a mapping, \<^verbatim>\<open>weather_for_coordinates\<close> looks
  up the key of the product with \<^verbatim>\<open>.get\<close>. If the value is there and not null, the payload
  is returned unchanged. If the key is missing or its value is null, the error the mapper
  returns for the payload is raised; for a payload with neither \<^verbatim>\<open>error\<close> equal to
  \<^verbatim>\<open>"Unauthorized"\<close> nor \<^verbatim>\<open>Type\<close> equal to \<^verbatim>\<open>"Invalid Request"\<close> that is a \<^verbatim>\<open>HereError\<close>
  carrying the \<^verbatim>\<open>Message\<close> field, null if there is none.
\<close>

theorem weather_payload_check:
  assumes "returned (request c w net ''GET'' None PNone PNone
             (Some (weather_params str c latitude longitude product one_observation metric))) = Inr (PDict d)"
  shows
   "(dict_get d (product_node product) \<noteq> PNone \<longrightarrow>
       returned (weather_for_coordinates str c w net latitude longitude product one_observation metric)
         = Inr (PDict d)) \<and>
    (dict_get d (product_node product) = PNone \<longrightarrow>
       (\<forall>err. get_error_from_response (PDict d) = Inr err \<longrightarrow>
          returned (weather_for_coordinates str c w net latitude longitude product one_observation metric)
            = Inl (Here err))) \<and>
    (dict_get d (product_node product) = PNone \<and>
     map_of d ''error'' \<noteq> Some (PStr ''Unauthorized'') \<and>
     dict_get d ''Type'' \<noteq> PStr ''Invalid Request'' \<longrightarrow>
       returned (weather_for_coordinates str c w net latitude longitude product one_observation metric)
         = Inl (Here (HereError [dict_get d ''Message''])))"
  by (simp add: weather_returned_dict [OF assms] get_error_from_response_dict type_message_error_dict)

text \<open>
  The theorem at a payload with the key of the product, and at an HTML page delivered with
  status 200, which \<^verbatim>\<open>request\<close> returns as \<^verbatim>\<open>{"message": <text>}\<close>.
\<close>

theorem weather_payload_check_witness:
  "returned (weather_for_coordinates (\<lambda>x. x) (init ''key'' 10 None) []
      (Response (json_response 200 ''application/json'' (PDict [(''observations'', PDict [(''location'', PList [])])])))
      ''52.5'' ''13.4'' observation True True)
     = Inr (PDict [(''observations'', PDict [(''location'', PList [])])]) \<and>
   returned (weather_for_coordinates (\<lambda>x. x) (init ''key'' 10 None) []
      (Response (text_response 200 ''text/html'' ''maintenance''))
      ''52.5'' ''13.4'' observation True True)
     = Inl (Here (HereError [PNone]))"
proof -
  have h1: "returned (request (init ''key'' 10 None) []
      (Response (json_response 200 ''application/json'' (PDict [(''observations'', PDict [(''location'', PList [])])])))
      ''GET'' None PNone PNone
      (Some (weather_params (\<lambda>x. x) (init ''key'' 10 None) ''52.5'' ''13.4'' observation True True)))
     = Inr (PDict [(''observations'', PDict [(''location'', PList [])])])"
    by (simp add: returned_request_Response handle_response_def json_response_def)
  have h2: "returned (request (init ''key'' 10 None) []
      (Response (text_response 200 ''text/html'' ''maintenance''))
      ''GET'' None PNone PNone
      (Some (weather_params (\<lambda>x. x) (init ''key'' 10 None) ''52.5'' ''13.4'' observation True True)))
     = Inr (PDict [(''message'', PStr ''maintenance'')])"
    by (simp add: returned_request_Response handle_response_def text_response_def)
  have k1: "dict_get [(''observations'', PDict [(''location'', PList [])])] (product_node observation)
      \<noteq> (PNone :: string pyval)"
    by (simp add: dict_get_def product_node_def)
  have k2: "dict_get [(''message'', PStr ''maintenance'')] (product_node observation) = (PNone :: string pyval)
     \<and> map_of [(''message'', PStr ''maintenance'' :: string pyval)] ''error'' \<noteq> Some (PStr ''Unauthorized'')
     \<and> dict_get [(''message'', PStr ''maintenance'')] ''Type'' \<noteq> (PStr ''Invalid Request'' :: string pyval)"
    by (simp add: dict_get_def product_node_def)
  have m: "dict_get [(''message'', PStr ''maintenance'')] ''Message'' = (PNone :: string pyval)"
    by (simp add: dict_get_def)
  from weather_payload_check [OF h1] k1 have a: "returned (weather_for_coordinates (\<lambda>x. x) (init ''key'' 10 None) []
      (Response (json_response 200 ''application/json'' (PDict [(''observations'', PDict [(''location'', PList [])])])))
      ''52.5'' ''13.4'' observation True True)
     = Inr (PDict [(''observations'', PDict [(''location'', PList [])])])"
    by blast
  from weather_payload_check [OF h2] k2 have "returned (weather_for_coordinates (\<lambda>x. x) (init ''key'' 10 None) []
      (Response (text_response 200 ''text/html'' ''maintenance''))
      ''52.5'' ''13.4'' observation True True)
     = Inl (Here (HereError [dict_get [(''message'', PStr ''maintenance'')] ''Message'']))"
    by blast
  with m a show ?thesis
    by (simp only: simp_thms)
qed

subsection \<open>The root key of a product\<close>

text \<open>
  C4. The product-to-root-key lookup is total on the seven product types and returns
  exactly observations, forecasts, dailyForecasts, hourlyForecasts, astronomy, alerts
  and nwsAlerts, in the order of the enumeration; every result is a non-empty string
  (the function returns a string, so no product maps to None).
\<close>

theorem product_node_table:
  "product_node observation = ''observations'' \<and>
   product_node forecast_7days = ''forecasts'' \<and>
   product_node forecast_7days_simple = ''dailyForecasts'' \<and>
   product_node forecast_hourly = ''hourlyForecasts'' \<and>
   product_node forecast_astronomy = ''astronomy'' \<and>
   product_node alerts = ''alerts'' \<and>
   product_node nws_alerts = ''nwsAlerts'' \<and>
   (\<forall>p. product_node p \<noteq> [])"
proof -
  have tab: "product_node observation = ''observations''"
    "product_node forecast_7days = ''forecasts''"
    "product_node forecast_7days_simple = ''dailyForecasts''"
    "product_node forecast_hourly = ''hourlyForecasts''"
    "product_node forecast_astronomy = ''astronomy''"
    "product_node alerts = ''alerts''"
    "product_node nws_alerts = ''nwsAlerts''"
    by (simp_all add: product_node_def)
  have ne: "product_node p \<noteq> []" for p
    by (cases p) (simp_all add: tab)
  from tab ne show ?thesis
    by blast
qed

subsection \<open>The request parameters\<close>

text \<open>
  C5. For every latitude, longitude, product and pair of booleans,
  \<^verbatim>\<open>weather_for_coordinates\<close> sends exactly one call through the client's session (the one
  it was given, or the one created for this call), and the parameters of that call are, in
  this order, \<^verbatim>\<open>apiKey\<close> (the stored key), \<^verbatim>\<open>product\<close> (the string of the enum member),
  \<^verbatim>\<open>oneobservation\<close> and \<^verbatim>\<open>metric\<close> (\<^verbatim>\<open>"true"\<close> or \<^verbatim>\<open>"false"\<close>), \<^verbatim>\<open>latitude\<close> and \<^verbatim>\<open>longitude\<close>
  (\<^verbatim>\<open>str\<close> of the number). The method is GET, the URL the fixed one, the headers the two
  defaults, and there is no body.
\<close>

theorem weather_for_coordinates_params:
  assumes "valid_session c w"
  shows
   "(case session c of
       None \<Rightarrow>
         session (self (weather_for_coordinates str c w net latitude longitude product one_observation metric))
           = Some (length w) \<and>
         requests (sessions (weather_for_coordinates str c w net latitude longitude product
                     one_observation metric) ! length w)
           = [\<lparr>call_method = ''GET'', call_url = API_URL, call_data = PNone, call_json = PNone,
               call_params = Some
                 [(''apiKey'', api_key c),
                  (''product'', str_product product),
                  (''oneobservation'', if one_observation then ''true'' else ''false''),
                  (''metric'', if metric then ''true'' else ''false''),
                  (''latitude'', str latitude),
                  (''longitude'', str longitude)],
               call_headers = [(''Accept'', ''application/json''), (''DNT'', ''1'')]\<rparr>]
     | Some s \<Rightarrow>
         session (self (weather_for_coordinates str c w net latitude longitude product one_observation metric))
           = Some s \<and>
         requests (sessions (weather_for_coordinates str c w net latitude longitude product
                     one_observation metric) ! s)
           = requests (w ! s) @
             [\<lparr>call_method = ''GET'', call_url = API_URL, call_data = PNone, call_json = PNone,
               call_params = Some
                 [(''apiKey'', api_key c),
                  (''product'', str_product product),
                  (''oneobservation'', if one_observation then ''true'' else ''false''),
                  (''metric'', if metric then ''true'' else ''false''),
                  (''latitude'', str latitude),
                  (''longitude'', str longitude)],
               call_headers = [(''Accept'', ''application/json''), (''DNT'', ''1'')]\<rparr>])"
proof (cases "session c")
  case None
  then have e: "ensure_session c w =
      (length w, c\<lparr>session := Some (length w), close_session := True\<rparr>, w @ [new_ClientSession])"
    by (simp add: ensure_session_def)
  have "length w < length (w @ [new_ClientSession :: 'a ClientSession])"
    by simp
  from session_request_nth [OF this] None show ?thesis
    by (simp add: weather_state request_state e weather_params_def new_ClientSession_def)
next
  case (Some s)
  then have e: "ensure_session c w = (s, c, w)"
    by (simp add: ensure_session_def)
  from Some assms have "s < length w"
    by (simp add: valid_session_def)
  from session_request_nth [OF this] Some show ?thesis
    by (simp add: weather_state request_state e weather_params_def)
qed

text \<open>
  The theorem for a client without a session and an empty store, with a call that times
  out: the call was sent all the same.
\<close>

theorem weather_for_coordinates_params_witness:
  "valid_session (init ''secret'' 10 None) ([] :: string store) \<and>
   requests (sessions (weather_for_coordinates (\<lambda>x. x) (init ''secret'' 10 None) []
               (Raised timeout_expired) ''52.5'' ''13.4'' forecast_hourly True False) ! 0)
     = [\<lparr>call_method = ''GET'',
         call_url = ''https://weather.cc.api.here.com/weather/1.0/report.json'',
         call_data = PNone, call_json = PNone,
         call_params = Some
           [(''apiKey'', ''secret''),
            (''product'', ''forecast_hourly''),
            (''oneobservation'', ''true''),
            (''metric'', ''false''),
            (''latitude'', ''52.5''),
            (''longitude'', ''13.4'')],
         call_headers = [(''Accept'', ''application/json''), (''DNT'', ''1'')]\<rparr>]"
proof -
  have v: "valid_session (init ''secret'' 10 None) ([] :: string store)"
    by (simp add: valid_session_def init_def)
  from weather_for_coordinates_params [OF v, of "\<lambda>x. x" "Raised timeout_expired" "''52.5''" "''13.4''"
      forecast_hourly True False] v
  show ?thesis
    by (simp add: init_def API_URL_def)
qed

subsection \<open>Responses without an error status\<close>

text \<open>
  C6. For every response with status 204, \<^verbatim>\<open>request\<close> returns \<^verbatim>\<open>None\<close>, whatever the
  headers and the body of the response are.
\<close>

theorem request_no_content:
  "resp_status r = 204 \<Longrightarrow>
   returned (request c w (Response r) method hs data json_data params) = Inr PNone"
  by (simp add: returned_request_Response handle_response_204)

text \<open>The theorem at a 204 response that announces JSON and has a body.\<close>

theorem request_no_content_witness:
  "resp_status (json_response 204 ''application/json'' (PDict [(''observations'', PList [])])) = 204 \<and>
   returned (request (init ''key'' 10 None) []
      (Response (json_response 204 ''application/json'' (PDict [(''observations'', PList [])])))
      ''GET'' None PNone PNone None) = Inr PNone"
proof -
  have h: "resp_status (json_response 204 ''application/json'' (PDict [(''observations'', PList [])])) = 204"
    by (simp add: json_response_def)
  from request_no_content [OF h, of "init ''key'' 10 None" "[]" "''GET''" None PNone PNone None] h
  show ?thesis
    by (simp only: simp_thms)
qed

text \<open>
  C7. For every response whose status is neither in [400, 600) nor 204: if the
  \<^verbatim>\<open>Content-Type\<close> header contains \<^verbatim>\<open>application/json\<close> as a substring, \<^verbatim>\<open>request\<close> returns
  the decoded JSON body; otherwise it returns \<^verbatim>\<open>{"message": <body text>}\<close>. A missing header
  counts as the empty string. (\<open>handle_response_success\<close> gives the outcome also where the
  decoder raises: that exception propagates.)
\<close>

theorem request_success_body:
  assumes "\<not> (400 \<le> resp_status r \<and> resp_status r < 600)" and "resp_status r \<noteq> 204"
  shows
   "(sublist ''application/json''
        (case resp_headers r ''Content-Type'' of None \<Rightarrow> [] | Some v \<Rightarrow> v) \<longrightarrow>
       (\<forall>v. resp_json r = Inr v \<longrightarrow>
          returned (request c w (Response r) method hs data json_data params) = Inr v)) \<and>
    (\<not> sublist ''application/json''
        (case resp_headers r ''Content-Type'' of None \<Rightarrow> [] | Some v \<Rightarrow> v) \<longrightarrow>
       (\<forall>t. resp_text r = Inr t \<longrightarrow>
          returned (request c w (Response r) method hs data json_data params) =
            Inr (PDict [(''message'', PStr t)])))"
  by (simp add: returned_request_Response handle_response_success [OF assms])

text \<open>
  The theorem at a 200 response with \<^verbatim>\<open>Content-Type: application/json; charset=utf-8\<close>,
  which the substring test accepts, and at a 200 response with an HTML page.
\<close>

theorem request_success_body_witness:
  "returned (request (init ''key'' 10 None) []
      (Response (json_response 200 ''application/json; charset=utf-8''
         (PDict [(''observations'', PList [])])))
      ''GET'' None PNone PNone None)
     = Inr (PDict [(''observations'', PList [])]) \<and>
   returned (request (init ''key'' 10 None) []
      (Response (text_response 200 ''text/html'' ''maintenance''))
      ''GET'' None PNone PNone None)
     = Inr (PDict [(''message'', PStr ''maintenance'')])"
proof -
  let ?r1 = "json_response 200 ''application/json; charset=utf-8'' (PDict [(''observations'', PList [])])"
  let ?r2 = "text_response 200 ''text/html'' ''maintenance''"
  have s1: "\<not> (400 \<le> resp_status ?r1 \<and> resp_status ?r1 < 600)" "resp_status ?r1 \<noteq> 204"
    and s2: "\<not> (400 \<le> resp_status ?r2 \<and> resp_status ?r2 < 600)" "resp_status ?r2 \<noteq> 204"
    by (simp_all add: json_response_def text_response_def)
  have c1: "sublist ''application/json''
      (case resp_headers ?r1 ''Content-Type'' of None \<Rightarrow> [] | Some v \<Rightarrow> v)"
    by (simp add: json_response_def py_in_str_sublist [symmetric])
  have j1: "resp_json ?r1 = Inr (PDict [(''observations'', PList [])])"
    by (simp add: json_response_def)
  have c2: "\<not> sublist ''application/json''
      (case resp_headers ?r2 ''Content-Type'' of None \<Rightarrow> [] | Some v \<Rightarrow> v)"
    by (simp add: text_response_def py_in_str_sublist [symmetric])
  have t2: "resp_text ?r2 = Inr ''maintenance''"
    by (simp add: text_response_def)
  from request_success_body [OF s1, of "init ''key'' 10 None" "[]" "''GET''" None PNone PNone None]
    c1 j1
  have a: "returned (request (init ''key'' 10 None) [] (Response ?r1) ''GET'' None PNone PNone None)
     = Inr (PDict [(''observations'', PList [])])"
    by blast
  from request_success_body [OF s2, of "init ''key'' 10 None" "[]" "''GET''" None PNone PNone None]
    c2 t2
  have "returned (request (init ''key'' 10 None) [] (Response ?r2) ''GET'' None PNone PNone None)
     = Inr (PDict [(''message'', PStr ''maintenance'')])"
    by blast
  with a show ?thesis
    by (simp only: simp_thms)
qed

text \<open>
  The same header on the error path is not JSON: there the test is equality, and a 400
  response with \<^verbatim>\<open>Content-Type: application/json; charset=utf-8\<close> is reported with its raw
  text.
\<close>

lemma error_path_exact_content_type:
  "returned (request (init ''key'' 10 None) []
      (Response (json_response 400 ''application/json; charset=utf-8''
         (PDict [(''Type'', PStr ''Invalid Request''), (''Message'', PStr ''bad latitude'')])))
      ''GET'' None PNone PNone None)
     = Inl (Here (HereError [PInt 400, PDict [(''message'', PStr ''(json text)'')]]))"
  by (simp add: returned_request_Response handle_response_def json_response_def)

subsection \<open>Closing the session\<close>

text \<open>
  The claim C8 says that the session the client created is closed exactly once and that
  every later \<^verbatim>\<open>close()\<close> is a no-op. \<^verbatim>\<open>close\<close> clears neither \<^verbatim>\<open>_session\<close> nor
  \<^verbatim>\<open>_close_session\<close>, so each call awaits the \<^verbatim>\<open>close()\<close> of the session again: after a first
  request and two calls of \<^verbatim>\<open>close\<close> the session's \<^verbatim>\<open>close()\<close> has been awaited twice.
\<close>

theorem close_twice_counterexample:
  "close_calls (close (self lazy_client_step) (close (self lazy_client_step) (sessions lazy_client_step)) ! 0) = 2 \<and>
   close (self lazy_client_step) (close (self lazy_client_step) (sessions lazy_client_step))
     \<noteq> close (self lazy_client_step) (sessions lazy_client_step)"
  by (simp add: lazy_client_step_def connection_refused_def request_def Let_def
        ensure_session_def init_def session_request_def new_ClientSession_def close_def
        session_close_def)

text \<open>
  C8, amended. A client constructed with a session never closes it: whatever calls are
  made on the client, in any order, no session of the store is closed and no \<^verbatim>\<open>close()\<close> of
  a session is awaited. \<^verbatim>\<open>close\<close> on a client that never created a session changes nothing.
  On a client whose session was created by its first request, the session is open after
  the request, it is closed after one or more calls of \<^verbatim>\<open>close\<close>, and after \<open>n\<close> calls of
  \<^verbatim>\<open>close\<close> the \<^verbatim>\<open>close()\<close> of the session has been awaited \<open>n\<close> times: a repeated \<^verbatim>\<open>close\<close>
  leaves the session closed but is a call on it, not a no-op.
\<close>

theorem close_ownership:
  "map closed (snd (run_calls str (init key timeout (Some s), w) calls)) = map closed w \<and>
   map close_calls (snd (run_calls str (init key timeout (Some s), w) calls)) = map close_calls w \<and>
   close (init key timeout None) w = w \<and>
   \<not> closed (sessions (request (init key timeout None) w net method hs data json_data params) ! length w) \<and>
   closed ((close (self (request (init key timeout None) w net method hs data json_data params)) ^^ Suc n)
            (sessions (request (init key timeout None) w net method hs data json_data params)) ! length w) \<and>
   close_calls ((close (self (request (init key timeout None) w net method hs data json_data params)) ^^ n)
            (sessions (request (init key timeout None) w net method hs data json_data params)) ! length w) = n"
proof -
  have b: "borrowed (init key timeout (Some s)) s"
    by (simp add: borrowed_def init_def)
  have n: "close (init key timeout None) w = w"
    by (simp add: close_def init_def)
  let ?st = "request (init key timeout None) w net method hs data json_data params"
  from lazy_request [of key timeout w net "method" hs data json_data params]
  have l: "session (self ?st) = Some (length w)" "close_session (self ?st)"
    "length w < length (sessions ?st)" "close_calls (sessions ?st ! length w) = 0"
    "\<not> closed (sessions ?st ! length w)"
    by blast+
  from close_repeated [OF l(1,2,3), of n] l(4,5) run_calls_borrowed [OF b, of str w calls] n
  show ?thesis
    by simp
qed

subsection \<open>Timeouts and connection failures\<close>

text \<open>
  What \<^verbatim>\<open>request\<close> raises for any exception of the \<^verbatim>\<open>try\<close>, by the order of the
  \<^verbatim>\<open>except\<close> clauses.
\<close>

lemma returned_request_Raised:
  "returned (request c w (Raised x) method hs data json_data params) =
     (if is_TimeoutError x then
        Inl (Here (HereTimeOutError [PStr ''Timeout occurred while connecting to the here API.'']))
      else if is_ClientError x \<or> is_gaierror x then
        Inl (Here (HereError [PStr ''Error occurred while communicating with the here API.'']))
      else Inl (raised_exn x))"
  by (simp add: request_def Let_def)

text \<open>
  The claim C9 gives the two messages as \<^verbatim>\<open>Timeout occurred while connecting to the API\<close>
  and \<^verbatim>\<open>Error occurred while communicating with the API\<close>. The strings in the code name
  the service and end with a full stop: neither the expired timeout nor a refused
  connection carries the message of the claim.
\<close>

theorem request_failure_message_counterexample:
  "returned (request (init ''key'' 10 None) [] (Raised timeout_expired)
      ''GET'' None PNone PNone None)
     \<noteq> Inl (Here (HereTimeOutError [PStr ''Timeout occurred while connecting to the API''])) \<and>
   returned (request (init ''key'' 10 None) [] (Raised connection_refused)
      ''GET'' None PNone PNone None)
     \<noteq> Inl (Here (HereError [PStr ''Error occurred while communicating with the API'']))"
  by (simp add: returned_request_Raised timeout_expired_def connection_refused_def)

text \<open>
  C9, amended. When the HTTP exchange exceeds the timeout, \<^verbatim>\<open>request\<close> fails with the
  timeout error kind carrying exactly the message
  \<^verbatim>\<open>Timeout occurred while connecting to the here API.\<close>; when a transport or connection
  failure occurs (DNS resolution failure, connection refused, protocol-level I/O error),
  it fails with the generic error kind carrying exactly the message
  \<^verbatim>\<open>Error occurred while communicating with the here API.\<close> Here a timeout is every
  exception of the exchange that is an \<^verbatim>\<open>asyncio.TimeoutError\<close>, also one that the HTTP
  library raises and that is an \<^verbatim>\<open>aiohttp.ClientError\<close> as well, since the timeout clause
  is tried first; a transport or connection failure is an exception that is an
  \<^verbatim>\<open>aiohttp.ClientError\<close> or a \<^verbatim>\<open>socket.gaierror\<close> and not a timeout.
\<close>

theorem request_transport_failure:
  "(is_TimeoutError x \<longrightarrow>
      returned (request c w (Raised x) method hs data json_data params) =
        Inl (Here (HereTimeOutError
          [PStr ''Timeout occurred while connecting to the here API.'']))) \<and>
   (\<not> is_TimeoutError x \<and> (is_ClientError x \<or> is_gaierror x) \<longrightarrow>
      returned (request c w (Raised x) method hs data json_data params) =
        Inl (Here (HereError
          [PStr ''Error occurred while communicating with the here API.''])))"
  by (simp add: returned_request_Raised)

text \<open>
  The theorem at the expired timeout context, at a server timeout of the HTTP library
  (a timeout and a client error at once), at a refused connection and at a failed name
  resolution.
\<close>

theorem request_transport_failure_witness:
  "returned (request (init ''key'' 10 None) [] (Raised timeout_expired)
      ''GET'' None PNone PNone None)
     = Inl (Here (HereTimeOutError [PStr ''Timeout occurred while connecting to the here API.''])) \<and>
   returned (request (init ''key'' 10 None) [] (Raised server_timeout)
      ''GET'' None PNone PNone None)
     = Inl (Here (HereTimeOutError [PStr ''Timeout occurred while connecting to the here API.''])) \<and>
   returned (request (init ''key'' 10 None) [] (Raised connection_refused)
      ''GET'' None PNone PNone None)
     = Inl (Here (HereError [PStr ''Error occurred while communicating with the here API.''])) \<and>
   returned (request (init ''key'' 10 None) [] (Raised dns_failure)
      ''GET'' None PNone PNone None)
     = Inl (Here (HereError [PStr ''Error occurred while communicating with the here API.'']))"
proof -
  have t: "is_TimeoutError timeout_expired" "is_TimeoutError server_timeout"
    by (simp_all add: timeout_expired_def server_timeout_def)
  have f: "\<not> is_TimeoutError connection_refused \<and>
           (is_ClientError connection_refused \<or> is_gaierror connection_refused)"
    "\<not> is_TimeoutError dns_failure \<and> (is_ClientError dns_failure \<or> is_gaierror dns_failure)"
    by (simp_all add: connection_refused_def dns_failure_def)
  from
    request_transport_failure [of timeout_expired "init ''key'' 10 None" "[]" "''GET''" None PNone PNone None]
    request_transport_failure [of server_timeout "init ''key'' 10 None" "[]" "''GET''" None PNone PNone None]
    request_transport_failure [of connection_refused "init ''key'' 10 None" "[]" "''GET''" None PNone PNone None]
    request_transport_failure [of dns_failure "init ''key'' 10 None" "[]" "''GET''" None PNone PNone None]
    t f
  show ?thesis
    by blast
qed

subsection \<open>The weather lookup on an empty result\<close>

text \<open>
  C10. If the response has status 204, so that \<^verbatim>\<open>request\<close> returns \<^verbatim>\<open>None\<close>,
  \<^verbatim>\<open>weather_for_coordinates\<close> does not return normally and raises none of the four error
  kinds: the \<^verbatim>\<open>.get\<close> on \<^verbatim>\<open>None\<close> raises \<^verbatim>\<open>AttributeError\<close>, which reaches the caller.
\<close>

theorem weather_no_content:
  assumes "resp_status r = 204"
  shows
   "returned (weather_for_coordinates str c w (Response r) latitude longitude product
       one_observation metric) = Inl AttributeError \<and>
    (\<forall>v. returned (weather_for_coordinates str c w (Response r) latitude longitude product
       one_observation metric) \<noteq> Inr v) \<and>
    (\<forall>err. returned (weather_for_coordinates str c w (Response r) latitude longitude product
       one_observation metric) \<noteq> Inl (Here err))"
  using assms
  by (simp add: weather_for_coordinates_def Let_def returned_request_Response handle_response_204)

text \<open>The theorem at an empty 204 response, for the product \<^verbatim>\<open>alerts\<close>.\<close>

theorem weather_no_content_witness:
  "resp_status (text_response 204 ''text/plain'' []) = 204 \<and>
   returned (weather_for_coordinates (\<lambda>x. x) (init ''key'' 10 None) []
      (Response (text_response 204 ''text/plain'' [])) ''52.5'' ''13.4'' alerts True True)
     = Inl AttributeError"
proof -
  have h: "resp_status (text_response 204 ''text/plain'' []) = 204"
    by (simp add: text_response_def)
  from weather_no_content [OF h, of "\<lambda>x. x" "init ''key'' 10 None" "[]" "''52.5''" "''13.4''"
      alerts True True] h
  show ?thesis
    by blast
qed

end
